theory Spec2Isabelle
  imports Complex_Main "HOL-Library.Stream"
begin

section \<open>The ray simulation of grid3d.cpp\<close>

text \<open>
  The program keeps every quantity of the simulation in a C++ \<^verbatim>\<open>float\<close>. The
  embedding reads a \<^verbatim>\<open>float\<close> as a \<^typ>\<open>real\<close>: additions, products, comparisons,
  \<^verbatim>\<open>sin\<close>, \<^verbatim>\<open>cos\<close> and \<^verbatim>\<open>glm::radians\<close> are the exact operations, without
  rounding, infinities or NaN. The theorems about the tick and the camera are statements
  about the control flow and the algebra of the code; none of them is a statement about
  rounding. One question is decided by rounding, the position at a zenith of 180
  degrees: for it \<^verbatim>\<open>glm::radians\<close> is read a second time, with the rounding of
  binary32 (\<open>radians_float\<close> and \<open>updatePosition_float\<close> below).
\<close>

subsection \<open>Grid parameters\<close>

definition GRID_SIZE :: int where
  "GRID_SIZE = 5"

definition CELL_SIZE :: real where
  "CELL_SIZE = 0.2"

subsection \<open>Sphere and Ray\<close>

text \<open>
  \<^verbatim>\<open>class Sphere\<close> has the fields \<^verbatim>\<open>x, y, z, radius\<close> and the render mesh
  \<^verbatim>\<open>vertices\<close>. The mesh is written once by the constructor and read only by the
  drawing code, never by \<^verbatim>\<open>Ray\<close>; the record keeps the four fields that the
  simulation reads. The fields \<^verbatim>\<open>x, y, z\<close> of both classes get a prefix, since a
  record field is a constant of the theory.
\<close>

record Sphere =
  sphere_x :: real
  sphere_y :: real
  sphere_z :: real
  radius :: real

record Ray =
  zenith :: real
  azimuth :: real
  currentLength :: real
  speed :: real
  gridHalfSize :: real
  ray_x :: real
  ray_y :: real
  ray_z :: real

text \<open>The constructor \<^verbatim>\<open>Ray::Ray()\<close>.\<close>

definition Ray_init :: Ray where
  "Ray_init =
     \<lparr>zenith = 45, azimuth = 45, currentLength = 0, speed = 0.005,
      gridHalfSize = (of_int GRID_SIZE * CELL_SIZE) / 2,
      ray_x = 0, ray_y = 0, ray_z = 0\<rparr>"

text \<open>\<^verbatim>\<open>Ray::isOutsideCube\<close>.\<close>

definition isOutsideCube :: "Ray \<Rightarrow> bool" where
  "isOutsideCube r \<longleftrightarrow>
     \<bar>ray_x r\<bar> > gridHalfSize r \<or> \<bar>ray_y r\<bar> > gridHalfSize r \<or> \<bar>ray_z r\<bar> > gridHalfSize r"

text \<open>\<^verbatim>\<open>Ray::intersectsSphere\<close>.\<close>

definition intersectsSphere :: "Ray \<Rightarrow> real \<Rightarrow> real \<Rightarrow> real \<Rightarrow> real \<Rightarrow> bool" where
  "intersectsSphere r sphereX sphereY sphereZ sphereRadius =
     (let dx = ray_x r - sphereX;
          dy = ray_y r - sphereY;
          dz = ray_z r - sphereZ;
          distanceSquared = dx * dx + dy * dy + dz * dz
      in distanceSquared \<le> sphereRadius * sphereRadius)"

text \<open>
  \<^verbatim>\<open>glm::radians\<close> is the library's conversion of degrees to radians, and
  \<^verbatim>\<open>Ray::updatePosition\<close> the spherical-to-Cartesian mapping built on it.
\<close>

definition radians :: "real \<Rightarrow> real" where
  "radians degrees = degrees * (pi / 180)"

definition updatePosition :: "Ray \<Rightarrow> Ray" where
  "updatePosition r =
     (let phi = radians (zenith r);
          theta = radians (azimuth r)
      in r\<lparr>ray_x := currentLength r * sin phi * cos theta,
           ray_y := currentLength r * cos phi,
           ray_z := currentLength r * sin phi * sin theta\<rparr>)"

subsection \<open>The random source and the console\<close>

text \<open>
  \<^verbatim>\<open>rand()\<close> of the C library returns an \<^verbatim>\<open>int\<close> between 0 and \<^verbatim>\<open>RAND_MAX\<close>
  and advances a process-wide generator. The generator is a stream of the values it is
  going to return, each a natural number; a call takes the head and leaves the tail.
\<close>

type_synonym rand_state = "nat stream"

definition rand :: "rand_state \<Rightarrow> nat \<times> rand_state" where
  "rand g = (shd g, stl g)"

text \<open>
  The two lines that \<^verbatim>\<open>Ray::update\<close> writes to \<^verbatim>\<open>std::cout\<close>, with the numbers
  they print.
\<close>

datatype message =
  HitSphereAt real real real
| PositionAtBoundary real real real real

subsection \<open>One tick: \<^verbatim>\<open>Ray::update\<close>\<close>

text \<open>
  The loop over the spheres. \<open>None\<close> is the loop running to its end; \<open>Some\<close> is the
  early \<^verbatim>\<open>return\<close> from inside the loop, with the line printed, the ray as the
  loop body leaves it and the generator after the two draws.
\<close>

fun update_spheres ::
  "Sphere list \<Rightarrow> Ray \<Rightarrow> rand_state \<Rightarrow> (message list \<times> Ray \<times> rand_state) option" where
  "update_spheres [] r g = None"
| "update_spheres (sphere # rest) r g =
     (if intersectsSphere r (sphere_x sphere) (sphere_y sphere) (sphere_z sphere) (radius sphere)
      then
        (let out = [HitSphereAt (sphere_x sphere) (sphere_y sphere) (sphere_z sphere)];
             r1 = r\<lparr>currentLength := 0\<rparr>;
             r2 = r1\<lparr>ray_x := 0, ray_y := 0, ray_z := 0\<rparr>;
             (n1, g1) = rand g;
             r3 = r2\<lparr>zenith := real (n1 mod 180)\<rparr>;
             (n2, g2) = rand g1;
             r4 = r3\<lparr>azimuth := real (n2 mod 360)\<rparr>
         in Some (out, r4, g2))
      else update_spheres rest r g)"

definition update :: "Sphere list \<Rightarrow> Ray \<Rightarrow> rand_state \<Rightarrow> message list \<times> Ray \<times> rand_state" where
  "update spheres r g =
     (let r1 = r\<lparr>currentLength := currentLength r + speed r\<rparr>;
          r2 = updatePosition r1
      in case update_spheres spheres r2 g of
           Some res \<Rightarrow> res
         | None \<Rightarrow>
             (if isOutsideCube r2 then
                (let out = [PositionAtBoundary (ray_x r2) (ray_y r2) (ray_z r2) (gridHalfSize r2)];
                     r3 = r2\<lparr>currentLength := 0\<rparr>;
                     r4 = r3\<lparr>ray_x := 0, ray_y := 0, ray_z := 0\<rparr>;
                     (n1, g1) = rand g;
                     r5 = r4\<lparr>zenith := real (n1 mod 180)\<rparr>;
                     (n2, g2) = rand g1;
                     r6 = r5\<lparr>azimuth := real (n2 mod 360)\<rparr>
                 in (out, r6, g2))
              else ([], r2, g)))"

text \<open>
  The states of the ray that a run can show: the constructed ray, and the ray after any
  call of \<^verbatim>\<open>update\<close>, whatever the sphere list and the generator are.
\<close>

inductive reachable :: "Ray \<Rightarrow> bool" where
  init: "reachable Ray_init"
| tick: "reachable r \<Longrightarrow> update spheres r g = (out, r', g') \<Longrightarrow> reachable r'"

subsection \<open>The camera of the main loop\<close>

text \<open>
  The two camera angles of \<^verbatim>\<open>main\<close> and the four key states polled in a frame
  (\<^verbatim>\<open>glfwGetKey(...) == GLFW_PRESS\<close> for right, left, up, down).
\<close>

record Camera =
  cameraTheta :: real
  cameraPhi :: real

record Keys =
  key_right :: bool
  key_left :: bool
  key_up :: bool
  key_down :: bool

definition rotationSpeed :: real where
  "rotationSpeed = 2"

definition Camera_init :: Camera where
  "Camera_init = \<lparr>cameraTheta = 45, cameraPhi = 45\<rparr>"

text \<open>
  The four \<^verbatim>\<open>if\<close> statements at the head of the main loop, in their order. The sums
  are exact here. Those of the program are binary32 sums, and they are the same as long
  as the angle is a whole number below \<open>2 ^ 24\<close> in magnitude, which it is for the
  first 8388585 frames of a run at least: from 45, steps of 2 reach 16777215 at most.
  What is stated below about a whole run of the azimuth is stated for such runs only.
\<close>

definition handle_keys :: "Keys \<Rightarrow> Camera \<Rightarrow> Camera" where
  "handle_keys k c =
     (let c1 = (if key_right k then c\<lparr>cameraTheta := cameraTheta c + rotationSpeed\<rparr> else c);
          c2 = (if key_left k then c1\<lparr>cameraTheta := cameraTheta c1 - rotationSpeed\<rparr> else c1);
          c3 = (if key_up k then c2\<lparr>cameraPhi := max 1 (cameraPhi c2 - rotationSpeed)\<rparr> else c2);
          c4 = (if key_down k then c3\<lparr>cameraPhi := min 179 (cameraPhi c3 + rotationSpeed)\<rparr> else c3)
      in c4)"

text \<open>The camera after a sequence of frames.\<close>

definition run_camera :: "Keys list \<Rightarrow> Camera" where
  "run_camera ks = foldl (\<lambda>c k. handle_keys k c) Camera_init ks"

subsection \<open>The conversion to radians in binary32\<close>

text \<open>
  \<open>float_round\<close> is the rounding of binary32: to the nearest number with a significand
  of 24 bits, a tie going to the even significand. The exponent is not bounded, so
  there is no overflow and no subnormal number; the values rounded below are far from
  both.
\<close>

definition round_half_even :: "real \<Rightarrow> int" where
  "round_half_even q =
     (let f = \<lfloor>q\<rfloor>; d = q - of_int f
      in if d < 1 / 2 then f else if 1 / 2 < d then f + 1 else if even f then f else f + 1)"

definition float_round :: "real \<Rightarrow> real" where
  "float_round v =
     (if v = 0 then 0
      else (let e = \<lfloor>log 2 \<bar>v\<bar>\<rfloor>;
                ulp = 2 powr (of_int e - 23)
            in sgn v * (of_int (round_half_even (\<bar>v\<bar> / ulp)) * ulp)))"

text \<open>
  \<^verbatim>\<open>glm::radians(degrees)\<close> for a \<^verbatim>\<open>float\<close> is
  \<^verbatim>\<open>degrees * static_cast<float>(0.01745329251994329576923690768489)\<close>: the
  constant rounded to binary32, and the product rounded to binary32.
\<close>

definition radians_factor :: real where
  "radians_factor = float_round 0.01745329251994329576923690768489"

definition radians_float :: "real \<Rightarrow> real" where
  "radians_float degrees = float_round (degrees * radians_factor)"

text \<open>
  \<^verbatim>\<open>Ray::updatePosition\<close> with the angles that \<^verbatim>\<open>glm::radians\<close> returns in binary32.
  The sine, the cosine and the products stay exact: their rounding moves a result by a
  relative error of about \<open>2 ^ - 24\<close>; it takes no part in what is stated of this
  function.
\<close>

definition updatePosition_float :: "Ray \<Rightarrow> Ray" where
  "updatePosition_float r =
     (let phi = radians_float (zenith r);
          theta = radians_float (azimuth r)
      in r\<lparr>ray_x := currentLength r * sin phi * cos theta,
           ray_y := currentLength r * cos phi,
           ray_z := currentLength r * sin phi * sin theta\<rparr>)"

subsection \<open>Concrete inputs\<close>

text \<open>
  A ray that a reset with zenith 0 and a hundred ticks leave on the top face of the
  cube, a ray on the same line further down, a ray pointing straight down with the
  zenith 180, four spheres (the first is the first
  sphere of the list in \<^verbatim>\<open>main\<close>), a generator whose first two values are 187 and
  365, and the keys of a frame with one arrow key held.
\<close>

definition ray_near_top :: Ray where
  "ray_near_top =
     \<lparr>zenith = 0, azimuth = 0, currentLength = 1 / 2, speed = 0.005, gridHalfSize = 1 / 2,
      ray_x = 0, ray_y = 1 / 2, ray_z = 0\<rparr>"

definition ray_mid :: Ray where
  "ray_mid =
     \<lparr>zenith = 0, azimuth = 0, currentLength = 0.1, speed = 0.005, gridHalfSize = 1 / 2,
      ray_x = 0, ray_y = 0.1, ray_z = 0\<rparr>"

definition ray_down :: Ray where
  "ray_down =
     \<lparr>zenith = 180, azimuth = 0, currentLength = 1 / 2, speed = 0.005, gridHalfSize = 1 / 2,
      ray_x = 0, ray_y = - 1 / 2, ray_z = 0\<rparr>"

definition sphere_far :: Sphere where
  "sphere_far = \<lparr>sphere_x = 0.1, sphere_y = - 0.1, sphere_z = 0.4, radius = 0.02\<rparr>"

definition sphere_top :: Sphere where
  "sphere_top = \<lparr>sphere_x = 0, sphere_y = 1 / 2, sphere_z = 0, radius = 0.02\<rparr>"

definition sphere_top2 :: Sphere where
  "sphere_top2 = \<lparr>sphere_x = 0, sphere_y = 0.51, sphere_z = 0, radius = 0.02\<rparr>"

definition sphere_centre :: Sphere where
  "sphere_centre = \<lparr>sphere_x = 0, sphere_y = 0, sphere_z = 0, radius = 1\<rparr>"

definition draws :: rand_state where
  "draws = 187 ## 365 ## sconst 0"

definition hold_right :: Keys where
  "hold_right = \<lparr>key_right = True, key_left = False, key_up = False, key_down = False\<rparr>"

definition hold_left :: Keys where
  "hold_left = \<lparr>key_right = False, key_left = True, key_up = False, key_down = False\<rparr>"

definition hold_up :: Keys where
  "hold_up = \<lparr>key_right = False, key_left = False, key_up = True, key_down = False\<rparr>"

section \<open>Properties\<close>

subsection \<open>The shape of one tick\<close>

text \<open>The call \<^verbatim>\<open>intersectsSphere(sphere.x, sphere.y, sphere.z, sphere.radius)\<close>.\<close>

abbreviation hits :: "Ray \<Rightarrow> Sphere \<Rightarrow> bool" where
  "hits r s \<equiv> intersectsSphere r (sphere_x s) (sphere_y s) (sphere_z s) (radius s)"

lemma updatePosition_fields [simp]:
  "zenith (updatePosition r) = zenith r"
  "azimuth (updatePosition r) = azimuth r"
  "currentLength (updatePosition r) = currentLength r"
  "speed (updatePosition r) = speed r"
  "gridHalfSize (updatePosition r) = gridHalfSize r"
  "ray_x (updatePosition r) = currentLength r * sin (radians (zenith r)) * cos (radians (azimuth r))"
  "ray_y (updatePosition r) = currentLength r * cos (radians (zenith r))"
  "ray_z (updatePosition r) = currentLength r * sin (radians (zenith r)) * sin (radians (azimuth r))"
  by (simp_all add: updatePosition_def Let_def)

lemma update_spheres_None:
  "update_spheres spheres r g = None \<longleftrightarrow> (\<forall>s \<in> set spheres. \<not> hits r s)"
  by (induction spheres) (simp_all add: rand_def Let_def)

lemma update_spheres_first:
  assumes "\<forall>t \<in> set pre. \<not> hits r t" and "hits r s"
  shows "update_spheres (pre @ s # post) r g =
     Some ([HitSphereAt (sphere_x s) (sphere_y s) (sphere_z s)],
           r\<lparr>currentLength := 0, ray_x := 0, ray_y := 0, ray_z := 0,
             zenith := real (shd g mod 180), azimuth := real (shd (stl g) mod 360)\<rparr>,
           stl (stl g))"
  using assms by (induction pre) (simp_all add: rand_def Let_def)

lemma update_no_hit:
  assumes "\<forall>s \<in> set spheres. \<not> hits (updatePosition (r\<lparr>currentLength := currentLength r + speed r\<rparr>)) s"
  shows "update spheres r g =
    (let p = updatePosition (r\<lparr>currentLength := currentLength r + speed r\<rparr>) in
     if isOutsideCube p
     then ([PositionAtBoundary (ray_x p) (ray_y p) (ray_z p) (gridHalfSize p)],
           p\<lparr>currentLength := 0, ray_x := 0, ray_y := 0, ray_z := 0,
             zenith := real (shd g mod 180), azimuth := real (shd (stl g) mod 360)\<rparr>,
           stl (stl g))
     else ([], p, g))"
proof -
  have "update_spheres spheres (updatePosition (r\<lparr>currentLength := currentLength r + speed r\<rparr>)) g = None"
    using assms by (simp add: update_spheres_None)
  then show ?thesis
    by (simp add: update_def Let_def rand_def)
qed

lemma update_hit:
  assumes "\<forall>t \<in> set pre. \<not> hits (updatePosition (r\<lparr>currentLength := currentLength r + speed r\<rparr>)) t"
    and "hits (updatePosition (r\<lparr>currentLength := currentLength r + speed r\<rparr>)) s"
  shows "update (pre @ s # post) r g =
     ([HitSphereAt (sphere_x s) (sphere_y s) (sphere_z s)],
      (updatePosition (r\<lparr>currentLength := currentLength r + speed r\<rparr>))
        \<lparr>currentLength := 0, ray_x := 0, ray_y := 0, ray_z := 0,
         zenith := real (shd g mod 180), azimuth := real (shd (stl g) mod 360)\<rparr>,
      stl (stl g))"
  using update_spheres_first [OF assms, of post g]
  by (simp add: update_def Let_def)

text \<open>
  A tick ends in one of two ways: silently, with the moved ray and an untouched
  generator, or with one printed line, the ray rewritten by the reset block and two
  values drawn.
\<close>

lemma update_cases:
  assumes "update spheres r g = (out, r', g')"
  shows "(out = [] \<and> r' = updatePosition (r\<lparr>currentLength := currentLength r + speed r\<rparr>) \<and> g' = g)
       \<or> (out \<noteq> [] \<and> g' = stl (stl g) \<and>
           r' = (updatePosition (r\<lparr>currentLength := currentLength r + speed r\<rparr>))
                  \<lparr>currentLength := 0, ray_x := 0, ray_y := 0, ray_z := 0,
                   zenith := real (shd g mod 180), azimuth := real (shd (stl g) mod 360)\<rparr>)"
proof (cases "\<forall>s \<in> set spheres. \<not> hits (updatePosition (r\<lparr>currentLength := currentLength r + speed r\<rparr>)) s")
  case True
  from update_no_hit [OF True, of g] assms show ?thesis
    by (auto simp: Let_def split: if_splits)
next
  case False
  then have "\<exists>s \<in> set spheres. hits (updatePosition (r\<lparr>currentLength := currentLength r + speed r\<rparr>)) s"
    by blast
  then obtain pre s post where sp: "spheres = pre @ s # post"
      and pre: "\<forall>t \<in> set pre. \<not> hits (updatePosition (r\<lparr>currentLength := currentLength r + speed r\<rparr>)) t"
      and s: "hits (updatePosition (r\<lparr>currentLength := currentLength r + speed r\<rparr>)) s"
    using split_list_first_prop [of spheres "\<lambda>s. hits (updatePosition (r\<lparr>currentLength := currentLength r + speed r\<rparr>)) s"]
    by blast
  from update_hit [OF pre s, of post g] assms sp show ?thesis
    by auto
qed

lemma reachable_after_update:
  "reachable r \<Longrightarrow> reachable (fst (snd (update spheres r g)))"
  by (rule reachable.tick [where out = "fst (update spheres r g)"
        and g' = "snd (snd (update spheres r g))"]) simp_all

lemma update_silent_iff:
  "fst (update spheres r g) = [] \<longleftrightarrow>
     (\<forall>s \<in> set spheres. \<not> hits (updatePosition (r\<lparr>currentLength := currentLength r + speed r\<rparr>)) s)
     \<and> \<not> isOutsideCube (updatePosition (r\<lparr>currentLength := currentLength r + speed r\<rparr>))"
proof (cases "\<forall>s \<in> set spheres. \<not> hits (updatePosition (r\<lparr>currentLength := currentLength r + speed r\<rparr>)) s")
  case True
  then show ?thesis
    using update_no_hit [of spheres r g] by (simp add: Let_def)
next
  case False
  then obtain pre s post where "spheres = pre @ s # post"
    "\<forall>t \<in> set pre. \<not> hits (updatePosition (r\<lparr>currentLength := currentLength r + speed r\<rparr>)) t"
    "hits (updatePosition (r\<lparr>currentLength := currentLength r + speed r\<rparr>)) s"
    using split_list_first_prop [of spheres "\<lambda>s. hits (updatePosition (r\<lparr>currentLength := currentLength r + speed r\<rparr>)) s"]
    by blast
  then show ?thesis
    using update_hit [of pre r s post g] False by simp
qed

lemma update_some_hit:
  assumes "\<exists>s \<in> set spheres. hits (updatePosition (r\<lparr>currentLength := currentLength r + speed r\<rparr>)) s"
  shows "\<exists>s \<in> set spheres. hits (updatePosition (r\<lparr>currentLength := currentLength r + speed r\<rparr>)) s
           \<and> fst (update spheres r g) = [HitSphereAt (sphere_x s) (sphere_y s) (sphere_z s)]"
proof -
  from assms obtain pre s post where sp: "spheres = pre @ s # post"
    and pre: "\<forall>t \<in> set pre. \<not> hits (updatePosition (r\<lparr>currentLength := currentLength r + speed r\<rparr>)) t"
    and s: "hits (updatePosition (r\<lparr>currentLength := currentLength r + speed r\<rparr>)) s"
    using split_list_first_prop [of spheres "\<lambda>s. hits (updatePosition (r\<lparr>currentLength := currentLength r + speed r\<rparr>)) s"]
    by blast
  have "fst (update spheres r g) = [HitSphereAt (sphere_x s) (sphere_y s) (sphere_z s)]"
    using update_hit [OF pre s, of post g] sp by simp
  with s sp show ?thesis
    by auto
qed

text \<open>The collision test does not read the half size of the grid.\<close>

lemma hits_gridHalfSize:
  "hits (updatePosition (r\<lparr>gridHalfSize := h, currentLength := l\<rparr>)) s
     \<longleftrightarrow> hits (updatePosition (r\<lparr>currentLength := l\<rparr>)) s"
  by (simp add: intersectsSphere_def)

text \<open>The half size of the grid is the one the constructor computes, 0.5.\<close>

lemma reachable_gridHalfSize:
  "reachable r \<Longrightarrow> gridHalfSize r = 1 / 2"
proof (induction rule: reachable.induct)
  case init
  show ?case by (simp add: Ray_init_def GRID_SIZE_def CELL_SIZE_def)
next
  case (tick r spheres g out r' g')
  from update_cases [OF tick.hyps(2)] tick.IH show ?case
    by auto
qed

lemma update_inside:
  assumes "0 \<le> gridHalfSize r" and "update spheres r g = (out, r', g')"
  shows "\<bar>ray_x r'\<bar> \<le> gridHalfSize r' \<and> \<bar>ray_y r'\<bar> \<le> gridHalfSize r' \<and> \<bar>ray_z r'\<bar> \<le> gridHalfSize r'"
proof (cases "out = []")
  case True
  then have "fst (update spheres r g) = []"
    using assms(2) by simp
  then have "\<not> isOutsideCube (updatePosition (r\<lparr>currentLength := currentLength r + speed r\<rparr>))"
    by (simp add: update_silent_iff)
  moreover have "r' = updatePosition (r\<lparr>currentLength := currentLength r + speed r\<rparr>)"
    using update_cases [OF assms(2)] True by blast
  ultimately show ?thesis
    by (auto simp: isOutsideCube_def)
next
  case False
  with update_cases [OF assms(2)] assms(1) show ?thesis
    by auto
qed

subsection \<open>The concrete inputs, evaluated\<close>

lemmas example_defs =
  ray_near_top_def ray_mid_def sphere_far_def sphere_top_def sphere_top2_def draws_def
  intersectsSphere_def isOutsideCube_def radians_def rand_def Let_def

lemma ray_near_top_moved:
  "updatePosition (ray_near_top\<lparr>currentLength := currentLength ray_near_top + speed ray_near_top\<rparr>)
     = ray_near_top\<lparr>currentLength := 0.505, ray_y := 0.505\<rparr>"
  by (simp add: updatePosition_def example_defs)

text \<open>The moved point lies at the travelled distance from the origin.\<close>

lemma updatePosition_norm:
  "(ray_x (updatePosition r))\<^sup>2 + (ray_y (updatePosition r))\<^sup>2 + (ray_z (updatePosition r))\<^sup>2
     = (currentLength r)\<^sup>2"
proof -
  define l where "l = currentLength r"
  define s where "s = sin (radians (zenith r))"
  define c where "c = cos (radians (zenith r))"
  define s' where "s' = sin (radians (azimuth r))"
  define c' where "c' = cos (radians (azimuth r))"
  have 1: "s\<^sup>2 + c\<^sup>2 = 1" and 2: "s'\<^sup>2 + c'\<^sup>2 = 1"
    by (simp_all add: s_def c_def s'_def c'_def)
  have "(l * s * c')\<^sup>2 + (l * c)\<^sup>2 + (l * s * s')\<^sup>2 = l\<^sup>2 * (s\<^sup>2 * (s'\<^sup>2 + c'\<^sup>2) + c\<^sup>2)"
    by (simp add: power2_eq_square algebra_simps)
  also have "\<dots> = l\<^sup>2"
    using 1 2 by simp
  finally show ?thesis
    by (simp add: l_def s_def c_def s'_def c'_def)
qed

lemma first_tick_hits_centre:
  "hits (updatePosition (Ray_init\<lparr>currentLength := currentLength Ray_init + speed Ray_init\<rparr>)) sphere_centre"
proof -
  have "(ray_x (updatePosition (Ray_init\<lparr>currentLength := currentLength Ray_init + speed Ray_init\<rparr>)))\<^sup>2
      + (ray_y (updatePosition (Ray_init\<lparr>currentLength := currentLength Ray_init + speed Ray_init\<rparr>)))\<^sup>2
      + (ray_z (updatePosition (Ray_init\<lparr>currentLength := currentLength Ray_init + speed Ray_init\<rparr>)))\<^sup>2
      = (0.005)\<^sup>2"
    unfolding updatePosition_norm by (simp add: Ray_init_def)
  then show ?thesis
    by (simp add: intersectsSphere_def sphere_centre_def Let_def power2_eq_square)
qed

text \<open>
  With a sphere of radius 1 at the origin the first tick of the constructed ray is a
  hit, and the draws 187 and 365 give the zenith 7 and the azimuth 5.
\<close>

lemma first_tick_reset:
  "update [sphere_centre] Ray_init draws =
     ([HitSphereAt 0 0 0],
      \<lparr>zenith = 7, azimuth = 5, currentLength = 0, speed = 0.005, gridHalfSize = 1 / 2,
       ray_x = 0, ray_y = 0, ray_z = 0\<rparr>,
      sconst 0)"
  using update_hit [of "[]" Ray_init sphere_centre "[]" draws] first_tick_hits_centre
  by (simp add: updatePosition_def Let_def Ray_init_def GRID_SIZE_def CELL_SIZE_def draws_def sphere_centre_def)

subsection \<open>The cached position\<close>

text \<open>
  C1. In every reachable state of the ray (the constructed ray, and the ray after any
  tick, whether the tick moved it or reset it) the stored position is the spherical
  mapping of the stored zenith, azimuth and travelled distance, the angles being
  degrees: x = length * sin zenith * cos azimuth, y = length * cos zenith,
  z = length * sin zenith * sin azimuth, with the zenith taken from the y axis and the
  azimuth around it from the x axis.
\<close>

theorem position_is_spherical_mapping:
  assumes "reachable r"
  shows "ray_x r = currentLength r * sin (radians (zenith r)) * cos (radians (azimuth r))
       \<and> ray_y r = currentLength r * cos (radians (zenith r))
       \<and> ray_z r = currentLength r * sin (radians (zenith r)) * sin (radians (azimuth r))"
  using assms
proof (induction rule: reachable.induct)
  case init
  show ?case by (simp add: Ray_init_def)
next
  case (tick r spheres g out r' g')
  from update_cases [OF tick.hyps(2)] show ?case
    by auto
qed

theorem position_is_spherical_mapping_witness:
  "reachable (fst (snd (update [] Ray_init (sconst 0))))
   \<and> ray_x (fst (snd (update [] Ray_init (sconst 0))))
       = currentLength (fst (snd (update [] Ray_init (sconst 0))))
         * sin (radians (zenith (fst (snd (update [] Ray_init (sconst 0))))))
         * cos (radians (azimuth (fst (snd (update [] Ray_init (sconst 0))))))
   \<and> ray_y (fst (snd (update [] Ray_init (sconst 0))))
       = currentLength (fst (snd (update [] Ray_init (sconst 0))))
         * cos (radians (zenith (fst (snd (update [] Ray_init (sconst 0))))))
   \<and> ray_z (fst (snd (update [] Ray_init (sconst 0))))
       = currentLength (fst (snd (update [] Ray_init (sconst 0))))
         * sin (radians (zenith (fst (snd (update [] Ray_init (sconst 0))))))
         * sin (radians (azimuth (fst (snd (update [] Ray_init (sconst 0))))))"
proof -
  have h: "reachable (fst (snd (update [] Ray_init (sconst 0))))"
    by (rule reachable_after_update [OF reachable.init])
  from position_is_spherical_mapping [OF h] h show ?thesis
    by blast
qed

subsection \<open>The boundary test\<close>

text \<open>
  C6. The boundary test classifies a position as outside exactly when the largest of the
  three coordinate magnitudes is strictly greater than the half size; a position is
  inside exactly when all three magnitudes are at most the half size, so a position
  with a magnitude equal to the half size and none above it is inside.
\<close>

theorem isOutsideCube_strict:
  "(isOutsideCube r \<longleftrightarrow> max \<bar>ray_x r\<bar> (max \<bar>ray_y r\<bar> \<bar>ray_z r\<bar>) > gridHalfSize r)
   \<and> (\<not> isOutsideCube r \<longleftrightarrow>
        \<bar>ray_x r\<bar> \<le> gridHalfSize r \<and> \<bar>ray_y r\<bar> \<le> gridHalfSize r \<and> \<bar>ray_z r\<bar> \<le> gridHalfSize r)
   \<and> (max \<bar>ray_x r\<bar> (max \<bar>ray_y r\<bar> \<bar>ray_z r\<bar>) = gridHalfSize r \<longrightarrow> \<not> isOutsideCube r)"
  unfolding isOutsideCube_def by auto

theorem isOutsideCube_strict_witness:
  "max \<bar>ray_x (Ray_init\<lparr>ray_x := - 1 / 2\<rparr>)\<bar>
       (max \<bar>ray_y (Ray_init\<lparr>ray_x := - 1 / 2\<rparr>)\<bar> \<bar>ray_z (Ray_init\<lparr>ray_x := - 1 / 2\<rparr>)\<bar>)
     = gridHalfSize (Ray_init\<lparr>ray_x := - 1 / 2\<rparr>)
   \<and> \<not> isOutsideCube (Ray_init\<lparr>ray_x := - 1 / 2\<rparr>)"
  using isOutsideCube_strict [of "Ray_init\<lparr>ray_x := - 1 / 2\<rparr>"]
  by (simp add: Ray_init_def GRID_SIZE_def CELL_SIZE_def)

subsection \<open>The order of one tick\<close>

text \<open>
  C2. Whatever the ray and the sphere list are, a tick first adds the speed to the
  travelled distance and recomputes the position from zenith, azimuth and the new
  distance, and only then tests: the collision test and the boundary test are both
  evaluated at the moved ray \<open>p\<close>, the boundary line prints the coordinates of \<open>p\<close>,
  and a silent tick returns exactly \<open>p\<close>. The move itself tests nothing: \<open>p\<close> is
  written without the spheres and without the half size of the grid.
\<close>

theorem update_advances_first:
  "let d = currentLength r + speed r;
       p = r\<lparr>currentLength := d,
              ray_x := d * sin (radians (zenith r)) * cos (radians (azimuth r)),
              ray_y := d * cos (radians (zenith r)),
              ray_z := d * sin (radians (zenith r)) * sin (radians (azimuth r))\<rparr>
   in (fst (update spheres r g) = [] \<longleftrightarrow> (\<forall>s \<in> set spheres. \<not> hits p s) \<and> \<not> isOutsideCube p)
    \<and> (fst (update spheres r g) = [] \<longrightarrow> update spheres r g = ([], p, g))
    \<and> ((\<forall>s \<in> set spheres. \<not> hits p s) \<and> isOutsideCube p \<longrightarrow>
          fst (update spheres r g) = [PositionAtBoundary (ray_x p) (ray_y p) (ray_z p) (gridHalfSize r)])
    \<and> ((\<exists>s \<in> set spheres. hits p s) \<longrightarrow>
          (\<exists>s \<in> set spheres. hits p s
             \<and> fst (update spheres r g) = [HitSphereAt (sphere_x s) (sphere_y s) (sphere_z s)]))"
proof -
  define p where "p = updatePosition (r\<lparr>currentLength := currentLength r + speed r\<rparr>)"
  have p_eq: "p = r\<lparr>currentLength := currentLength r + speed r,
              ray_x := (currentLength r + speed r) * sin (radians (zenith r)) * cos (radians (azimuth r)),
              ray_y := (currentLength r + speed r) * cos (radians (zenith r)),
              ray_z := (currentLength r + speed r) * sin (radians (zenith r)) * sin (radians (azimuth r))\<rparr>"
    by (simp add: p_def updatePosition_def Let_def)
  have a: "fst (update spheres r g) = [] \<longleftrightarrow> (\<forall>s \<in> set spheres. \<not> hits p s) \<and> \<not> isOutsideCube p"
    unfolding p_def by (rule update_silent_iff)
  have b: "fst (update spheres r g) = [] \<longrightarrow> update spheres r g = ([], p, g)"
    using update_cases [of spheres r g "fst (update spheres r g)" "fst (snd (update spheres r g))"
        "snd (snd (update spheres r g))"]
    by (cases "update spheres r g") (auto simp: p_def)
  have c: "(\<forall>s \<in> set spheres. \<not> hits p s) \<and> isOutsideCube p \<longrightarrow>
          fst (update spheres r g) = [PositionAtBoundary (ray_x p) (ray_y p) (ray_z p) (gridHalfSize r)]"
    using update_no_hit [of spheres r g] by (simp add: p_def Let_def)
  have d: "(\<exists>s \<in> set spheres. hits p s) \<longrightarrow>
          (\<exists>s \<in> set spheres. hits p s
             \<and> fst (update spheres r g) = [HitSphereAt (sphere_x s) (sphere_y s) (sphere_z s)])"
    unfolding p_def using update_some_hit [of spheres r g] by blast
  from a b c d show ?thesis
    unfolding Let_def p_eq [symmetric] by blast
qed

theorem update_advances_first_witness:
  "fst (update [sphere_far] ray_mid draws) = []
   \<and> update [sphere_far] ray_mid draws =
       ([],
        \<lparr>zenith = 0, azimuth = 0, currentLength = 0.105, speed = 0.005, gridHalfSize = 1 / 2,
         ray_x = 0, ray_y = 0.105, ray_z = 0\<rparr>,
        draws)
   \<and> fst (update [sphere_far] ray_near_top draws) = [PositionAtBoundary 0 0.505 0 (1 / 2)]"
proof -
  have a: "fst (update [sphere_far] ray_mid draws) = []"
    by (simp add: update_def updatePosition_def example_defs)
  have b: "update [sphere_far] ray_mid draws =
       ([],
        \<lparr>zenith = 0, azimuth = 0, currentLength = 0.105, speed = 0.005, gridHalfSize = 1 / 2,
         ray_x = 0, ray_y = 0.105, ray_z = 0\<rparr>,
        draws)"
    using a update_advances_first [of ray_mid "[sphere_far]" draws]
    by (simp add: Let_def) (simp add: ray_mid_def radians_def)
  have c: "fst (update [sphere_far] ray_near_top draws) = [PositionAtBoundary 0 0.505 0 (1 / 2)]"
    by (simp add: update_def updatePosition_def example_defs)
  from a b c show ?thesis
    by blast
qed

text \<open>
  C3. When the moved position is inside the sphere of some obstacle and outside the
  grid at once, the tick prints the line of an obstacle hit (for a sphere that contains
  the position) and never the boundary line. The collision loop runs first and returns
  from the tick, so the boundary test has no part in the outcome: with any other half
  size of the grid the tick prints the same line.
\<close>

theorem collision_before_boundary:
  assumes "\<exists>s \<in> set spheres. hits (updatePosition (r\<lparr>currentLength := currentLength r + speed r\<rparr>)) s"
    and "isOutsideCube (updatePosition (r\<lparr>currentLength := currentLength r + speed r\<rparr>))"
  shows "(\<exists>s \<in> set spheres. hits (updatePosition (r\<lparr>currentLength := currentLength r + speed r\<rparr>)) s
            \<and> fst (update spheres r g) = [HitSphereAt (sphere_x s) (sphere_y s) (sphere_z s)])
       \<and> (\<forall>a b c h. fst (update spheres r g) \<noteq> [PositionAtBoundary a b c h])
       \<and> (\<forall>h. fst (update spheres (r\<lparr>gridHalfSize := h\<rparr>) g) = fst (update spheres r g))"
proof -
  from assms(1) obtain pre s post where sp: "spheres = pre @ s # post"
    and pre: "\<forall>t \<in> set pre. \<not> hits (updatePosition (r\<lparr>currentLength := currentLength r + speed r\<rparr>)) t"
    and s: "hits (updatePosition (r\<lparr>currentLength := currentLength r + speed r\<rparr>)) s"
    using split_list_first_prop [of spheres "\<lambda>s. hits (updatePosition (r\<lparr>currentLength := currentLength r + speed r\<rparr>)) s"]
    by blast
  have out: "fst (update spheres r g) = [HitSphereAt (sphere_x s) (sphere_y s) (sphere_z s)]"
    using update_hit [OF pre s, of post g] sp by simp
  have indep: "fst (update spheres (r\<lparr>gridHalfSize := h\<rparr>) g) = fst (update spheres r g)" for h
  proof -
    have pre': "\<forall>t \<in> set pre. \<not> hits (updatePosition (r\<lparr>gridHalfSize := h\<rparr>
        \<lparr>currentLength := currentLength (r\<lparr>gridHalfSize := h\<rparr>) + speed (r\<lparr>gridHalfSize := h\<rparr>)\<rparr>)) t"
      using pre by (simp add: hits_gridHalfSize)
    have s': "hits (updatePosition (r\<lparr>gridHalfSize := h\<rparr>
        \<lparr>currentLength := currentLength (r\<lparr>gridHalfSize := h\<rparr>) + speed (r\<lparr>gridHalfSize := h\<rparr>)\<rparr>)) s"
      using s by (simp add: hits_gridHalfSize)
    show ?thesis
      using update_hit [OF pre' s', of post g] sp out by simp
  qed
  from out s sp indep show ?thesis
    by auto
qed

theorem collision_before_boundary_witness:
  "hits (ray_near_top\<lparr>currentLength := 0.505, ray_y := 0.505\<rparr>) sphere_top
   \<and> isOutsideCube (ray_near_top\<lparr>currentLength := 0.505, ray_y := 0.505\<rparr>)
   \<and> fst (update [sphere_far, sphere_top] ray_near_top draws) = [HitSphereAt 0 (1 / 2) 0]"
proof -
  have h: "hits (ray_near_top\<lparr>currentLength := 0.505, ray_y := 0.505\<rparr>) sphere_top"
    by (simp add: example_defs)
  have f: "\<not> hits (ray_near_top\<lparr>currentLength := 0.505, ray_y := 0.505\<rparr>) sphere_far"
    by (simp add: example_defs)
  have o: "isOutsideCube (ray_near_top\<lparr>currentLength := 0.505, ray_y := 0.505\<rparr>)"
    by (simp add: example_defs)
  have "\<exists>s \<in> set [sphere_far, sphere_top].
      hits (updatePosition (ray_near_top\<lparr>currentLength := currentLength ray_near_top + speed ray_near_top\<rparr>)) s"
    using h by (simp add: ray_near_top_moved)
  moreover have "isOutsideCube
      (updatePosition (ray_near_top\<lparr>currentLength := currentLength ray_near_top + speed ray_near_top\<rparr>))"
    using o by (simp add: ray_near_top_moved)
  ultimately have "\<exists>s \<in> set [sphere_far, sphere_top].
      hits (updatePosition (ray_near_top\<lparr>currentLength := currentLength ray_near_top + speed ray_near_top\<rparr>)) s
      \<and> fst (update [sphere_far, sphere_top] ray_near_top draws)
          = [HitSphereAt (sphere_x s) (sphere_y s) (sphere_z s)]"
    using collision_before_boundary [of "[sphere_far, sphere_top]" ray_near_top draws] by blast
  then have "fst (update [sphere_far, sphere_top] ray_near_top draws) = [HitSphereAt 0 (1 / 2) 0]"
    using f by (auto simp: ray_near_top_moved) (simp_all add: sphere_top_def)
  with h o show ?thesis
    by blast
qed

subsection \<open>The collision test\<close>

text \<open>
  C4. The collision test of a sphere is the comparison of the squared Euclidean distance
  between the position and the centre with the squared radius, equality included. The
  loop takes the spheres in list order: when a sphere contains the moved position and no
  sphere before it in the list does, the tick prints the line of that sphere and nothing
  else, whatever follows it in the list; when no sphere contains the position, no hit
  line is printed.
\<close>

theorem first_matching_sphere:
  "(intersectsSphere q a b c rad \<longleftrightarrow>
      (ray_x q - a)\<^sup>2 + (ray_y q - b)\<^sup>2 + (ray_z q - c)\<^sup>2 \<le> rad\<^sup>2)
   \<and> (\<forall>pre s post.
        spheres = pre @ s # post
        \<and> (\<forall>t \<in> set pre. \<not> hits (updatePosition (r\<lparr>currentLength := currentLength r + speed r\<rparr>)) t)
        \<and> hits (updatePosition (r\<lparr>currentLength := currentLength r + speed r\<rparr>)) s
        \<longrightarrow> fst (update spheres r g) = [HitSphereAt (sphere_x s) (sphere_y s) (sphere_z s)])
   \<and> ((\<forall>t \<in> set spheres. \<not> hits (updatePosition (r\<lparr>currentLength := currentLength r + speed r\<rparr>)) t)
        \<longrightarrow> (\<forall>a b c. fst (update spheres r g) \<noteq> [HitSphereAt a b c]))"
proof -
  have a: "intersectsSphere q a b c rad \<longleftrightarrow>
      (ray_x q - a)\<^sup>2 + (ray_y q - b)\<^sup>2 + (ray_z q - c)\<^sup>2 \<le> rad\<^sup>2"
    by (simp add: intersectsSphere_def Let_def power2_eq_square)
  have b: "fst (update spheres r g) = [HitSphereAt (sphere_x s) (sphere_y s) (sphere_z s)]"
    if "spheres = pre @ s # post"
      and "\<forall>t \<in> set pre. \<not> hits (updatePosition (r\<lparr>currentLength := currentLength r + speed r\<rparr>)) t"
      and "hits (updatePosition (r\<lparr>currentLength := currentLength r + speed r\<rparr>)) s"
    for pre s post
    using update_hit [OF that(2,3), of post g] that(1) by simp
  have c: "fst (update spheres r g) \<noteq> [HitSphereAt a b c]"
    if "\<forall>t \<in> set spheres. \<not> hits (updatePosition (r\<lparr>currentLength := currentLength r + speed r\<rparr>)) t"
    for a b c
    using update_no_hit [OF that, of g] by (simp add: Let_def)
  from a b c show ?thesis
    by blast
qed

theorem first_matching_sphere_witness:
  "\<not> hits (ray_near_top\<lparr>currentLength := 0.505, ray_y := 0.505\<rparr>) sphere_far
   \<and> hits (ray_near_top\<lparr>currentLength := 0.505, ray_y := 0.505\<rparr>) sphere_top
   \<and> hits (ray_near_top\<lparr>currentLength := 0.505, ray_y := 0.505\<rparr>) sphere_top2
   \<and> fst (update [sphere_far, sphere_top, sphere_top2] ray_near_top draws) = [HitSphereAt 0 (1 / 2) 0]
   \<and> fst (update [sphere_far, sphere_top2, sphere_top] ray_near_top draws) = [HitSphereAt 0 0.51 0]"
proof -
  have h: "hits (ray_near_top\<lparr>currentLength := 0.505, ray_y := 0.505\<rparr>) sphere_top"
    and h2: "hits (ray_near_top\<lparr>currentLength := 0.505, ray_y := 0.505\<rparr>) sphere_top2"
    and f: "\<not> hits (ray_near_top\<lparr>currentLength := 0.505, ray_y := 0.505\<rparr>) sphere_far"
    by (simp_all add: example_defs)
  have "[sphere_far, sphere_top, sphere_top2] = [sphere_far] @ sphere_top # [sphere_top2]
      \<and> (\<forall>t \<in> set [sphere_far]. \<not> hits (updatePosition
            (ray_near_top\<lparr>currentLength := currentLength ray_near_top + speed ray_near_top\<rparr>)) t)
      \<and> hits (updatePosition
            (ray_near_top\<lparr>currentLength := currentLength ray_near_top + speed ray_near_top\<rparr>)) sphere_top"
    using h f by (simp add: ray_near_top_moved)
  then have a: "fst (update [sphere_far, sphere_top, sphere_top2] ray_near_top draws)
      = [HitSphereAt (sphere_x sphere_top) (sphere_y sphere_top) (sphere_z sphere_top)]"
    using first_matching_sphere [of _ _ _ _ _ "[sphere_far, sphere_top, sphere_top2]" ray_near_top draws]
    by blast
  have "[sphere_far, sphere_top2, sphere_top] = [sphere_far] @ sphere_top2 # [sphere_top]
      \<and> (\<forall>t \<in> set [sphere_far]. \<not> hits (updatePosition
            (ray_near_top\<lparr>currentLength := currentLength ray_near_top + speed ray_near_top\<rparr>)) t)
      \<and> hits (updatePosition
            (ray_near_top\<lparr>currentLength := currentLength ray_near_top + speed ray_near_top\<rparr>)) sphere_top2"
    using h2 f by (simp add: ray_near_top_moved)
  then have b: "fst (update [sphere_far, sphere_top2, sphere_top] ray_near_top draws)
      = [HitSphereAt (sphere_x sphere_top2) (sphere_y sphere_top2) (sphere_z sphere_top2)]"
    using first_matching_sphere [of _ _ _ _ _ "[sphere_far, sphere_top2, sphere_top]" ray_near_top draws]
    by blast
  from a b h h2 f show ?thesis
    by (simp add: sphere_top_def sphere_top2_def)
qed

subsection \<open>The reset\<close>

text \<open>
  C5. A tick that prints a line (an obstacle hit or a boundary exit) leaves the ray with
  travelled distance 0, position (0, 0, 0), a zenith that is a whole number from 0 to
  179, an azimuth that is a whole number from 0 to 359, and the speed it had.
\<close>

theorem reset_exact:
  assumes "update spheres r g = (out, r', g')" and "out \<noteq> []"
  shows "currentLength r' = 0 \<and> ray_x r' = 0 \<and> ray_y r' = 0 \<and> ray_z r' = 0
       \<and> (\<exists>n<180. zenith r' = real n) \<and> (\<exists>m<360. azimuth r' = real m)
       \<and> speed r' = speed r"
proof -
  from update_cases [OF assms(1)] assms(2)
  have r': "r' = (updatePosition (r\<lparr>currentLength := currentLength r + speed r\<rparr>))
                  \<lparr>currentLength := 0, ray_x := 0, ray_y := 0, ray_z := 0,
                   zenith := real (shd g mod 180), azimuth := real (shd (stl g) mod 360)\<rparr>"
    by blast
  have "shd g mod 180 < 180" and "shd (stl g) mod 360 < 360"
    by simp_all
  with r' show ?thesis
    by auto
qed

theorem reset_exact_witness:
  "update [sphere_far, sphere_top] ray_near_top draws =
     ([HitSphereAt 0 (1 / 2) 0],
      \<lparr>zenith = 7, azimuth = 5, currentLength = 0, speed = 0.005, gridHalfSize = 1 / 2,
       ray_x = 0, ray_y = 0, ray_z = 0\<rparr>,
      sconst 0)
   \<and> update [sphere_far] ray_near_top draws =
     ([PositionAtBoundary 0 0.505 0 (1 / 2)],
      \<lparr>zenith = 7, azimuth = 5, currentLength = 0, speed = 0.005, gridHalfSize = 1 / 2,
       ray_x = 0, ray_y = 0, ray_z = 0\<rparr>,
      sconst 0)"
proof -
  have a: "update [sphere_far, sphere_top] ray_near_top draws =
     ([HitSphereAt 0 (1 / 2) 0],
      \<lparr>zenith = 7, azimuth = 5, currentLength = 0, speed = 0.005, gridHalfSize = 1 / 2,
       ray_x = 0, ray_y = 0, ray_z = 0\<rparr>,
      sconst 0)"
    by (simp add: update_def updatePosition_def example_defs)
  have b: "update [sphere_far] ray_near_top draws =
     ([PositionAtBoundary 0 0.505 0 (1 / 2)],
      \<lparr>zenith = 7, azimuth = 5, currentLength = 0, speed = 0.005, gridHalfSize = 1 / 2,
       ray_x = 0, ray_y = 0, ray_z = 0\<rparr>,
      sconst 0)"
    by (simp add: update_def updatePosition_def example_defs)
  from reset_exact [OF a] reset_exact [OF b] a b show ?thesis
    by simp
qed

subsection \<open>What a frame shows\<close>

text \<open>
  C9. At the end of every tick of a run the position of the ray is inside the grid: each
  of the three coordinate magnitudes is at most the half size, and the boundary test on
  the returned ray fails. A tick that moved the ray outside has put it back at the
  origin, a hit has done the same, and a silent tick has passed the boundary test.
\<close>

theorem position_inside_after_tick:
  assumes "reachable r" and "update spheres r g = (out, r', g')"
  shows "\<bar>ray_x r'\<bar> \<le> gridHalfSize r' \<and> \<bar>ray_y r'\<bar> \<le> gridHalfSize r' \<and> \<bar>ray_z r'\<bar> \<le> gridHalfSize r'
       \<and> \<not> isOutsideCube r'"
proof -
  have "0 \<le> gridHalfSize r"
    using reachable_gridHalfSize [OF assms(1)] by simp
  from update_inside [OF this assms(2)] show ?thesis
    by (auto simp: isOutsideCube_def)
qed

theorem position_inside_after_tick_witness:
  "reachable Ray_init
   \<and> \<bar>ray_x (fst (snd (update [sphere_far] Ray_init draws)))\<bar> \<le> 1 / 2
   \<and> \<bar>ray_y (fst (snd (update [sphere_far] Ray_init draws)))\<bar> \<le> 1 / 2
   \<and> \<bar>ray_z (fst (snd (update [sphere_far] Ray_init draws)))\<bar> \<le> 1 / 2
   \<and> ray_x (fst (snd (update [sphere_centre] Ray_init draws))) = 0"
proof -
  have u: "update [sphere_far] Ray_init draws =
      (fst (update [sphere_far] Ray_init draws),
       fst (snd (update [sphere_far] Ray_init draws)),
       snd (snd (update [sphere_far] Ray_init draws)))"
    by simp
  have "reachable (fst (snd (update [sphere_far] Ray_init draws)))"
    by (rule reachable_after_update [OF reachable.init])
  then have "gridHalfSize (fst (snd (update [sphere_far] Ray_init draws))) = 1 / 2"
    by (rule reachable_gridHalfSize)
  with position_inside_after_tick [OF reachable.init u] reachable.init show ?thesis
    by (simp add: first_tick_reset)
qed

subsection \<open>The zenith\<close>

text \<open>
  C10. In every reachable state of the ray the zenith is a whole number from 0 to 179:
  the constructor sets it to 45, a reset sets it to a drawn value modulo 180, and the
  move leaves it alone. It lies in the interval from 0 to 180 with 180 excluded, so the
  degenerate zenith of 180 degrees is not reached.
\<close>

theorem zenith_range:
  assumes "reachable r"
  shows "(\<exists>n<180. zenith r = real n) \<and> 0 \<le> zenith r \<and> zenith r < 180 \<and> zenith r \<noteq> 180"
proof -
  have "\<exists>n<180. zenith r = real n"
    using assms
  proof (induction rule: reachable.induct)
    case init
    have "zenith Ray_init = real 45" by (simp add: Ray_init_def)
    then show ?case by (intro exI [of _ 45]) simp
  next
    case (tick r spheres g out r' g')
    have "shd g mod 180 < 180" by simp
    with update_cases [OF tick.hyps(2)] tick.IH show ?case
      by auto
  qed
  then show ?thesis
    by auto
qed

theorem zenith_range_witness:
  "reachable \<lparr>zenith = 7, azimuth = 5, currentLength = 0, speed = 0.005, gridHalfSize = 1 / 2,
       ray_x = 0, ray_y = 0, ray_z = 0\<rparr>
   \<and> zenith (fst (snd (update [sphere_centre] Ray_init draws))) = 7
   \<and> zenith (fst (snd (update [sphere_far] Ray_init draws))) < 180"
proof -
  have "reachable (fst (snd (update [sphere_centre] Ray_init draws)))"
    by (rule reachable_after_update [OF reachable.init])
  then have a: "reachable \<lparr>zenith = 7, azimuth = 5, currentLength = 0, speed = 0.005, gridHalfSize = 1 / 2,
       ray_x = 0, ray_y = 0, ray_z = 0\<rparr>"
    by (simp add: first_tick_reset)
  have b: "reachable (fst (snd (update [sphere_far] Ray_init draws)))"
    by (rule reachable_after_update [OF reachable.init])
  from zenith_range [OF a] zenith_range [OF b] a show ?thesis
    by (simp add: first_tick_reset)
qed

subsection \<open>The camera\<close>

lemma handle_keys_theta:
  "cameraTheta (handle_keys k c) =
     cameraTheta c + (if key_right k then 2 else 0) - (if key_left k then 2 else 0)"
  by (simp add: handle_keys_def Let_def rotationSpeed_def)

lemma handle_keys_phi:
  assumes "1 \<le> cameraPhi c" and "cameraPhi c \<le> 179"
  shows "1 \<le> cameraPhi (handle_keys k c) \<and> cameraPhi (handle_keys k c) \<le> 179"
  using assms by (auto simp: handle_keys_def Let_def rotationSpeed_def)

lemma run_camera_snoc:
  "run_camera (ks @ [k]) = handle_keys k (run_camera ks)"
  by (simp add: run_camera_def)

lemma run_camera_phi:
  "1 \<le> cameraPhi (run_camera ks) \<and> cameraPhi (run_camera ks) \<le> 179"
proof (induction ks rule: rev_induct)
  case Nil
  show ?case by (simp add: run_camera_def Camera_init_def)
next
  case (snoc k ks)
  then show ?case
    using handle_keys_phi [of "run_camera ks" k] by (simp add: run_camera_snoc)
qed

text \<open>
  The azimuth of the model after a run, as an exact sum. The theorem below uses it for
  the runs in which the sums of the program are exact as well.
\<close>

lemma run_camera_theta:
  "cameraTheta (run_camera ks) =
     45 + 2 * real (length (filter key_right ks)) - 2 * real (length (filter key_left ks))"
proof (induction ks rule: rev_induct)
  case Nil
  show ?case by (simp add: run_camera_def Camera_init_def)
next
  case (snoc k ks)
  then show ?case
    by (simp add: run_camera_snoc handle_keys_theta)
qed

text \<open>Within the first 8388585 frames the azimuth is a whole number below \<open>2 ^ 24\<close>.\<close>

lemma run_camera_theta_int:
  assumes "length ks \<le> 8388585"
  shows "\<exists>m::int. cameraTheta (run_camera ks) = of_int m \<and> \<bar>m\<bar> < 2 ^ 24"
proof -
  define a where "a = length (filter key_right ks)"
  define b where "b = length (filter key_left ks)"
  have a: "a \<le> 8388585"
    using assms length_filter_le [of key_right ks] unfolding a_def by linarith
  have b: "b \<le> 8388585"
    using assms length_filter_le [of key_left ks] unfolding b_def by linarith
  have "cameraTheta (run_camera ks) = of_int (45 + 2 * int a - 2 * int b)"
    by (simp add: run_camera_theta a_def b_def)
  moreover have "\<bar>45 + 2 * int a - 2 * int b\<bar> < 2 ^ 24"
    using a b by simp
  ultimately show ?thesis
    by blast
qed

lemma handle_keys_hold_up:
  "handle_keys hold_up c = c\<lparr>cameraPhi := max 1 (cameraPhi c - 2)\<rparr>"
  by (simp add: handle_keys_def hold_up_def rotationSpeed_def)

lemma foldl_hold_up:
  assumes "1 \<le> cameraPhi c"
  shows "cameraPhi (foldl (\<lambda>c k. handle_keys k c) c (replicate n hold_up))
           = max 1 (cameraPhi c - 2 * real n)"
  using assms by (induction n arbitrary: c) (auto simp: handle_keys_hold_up)

text \<open>
  C7. For every sequence of frames, each with any of the four arrow keys held, the polar
  angle of the camera starts at 45 and lies between 1 and 179 after every frame: the
  up key takes 2 off and stops at 1, the down key adds 2 and stops at 179. The
  controller neither clamps nor wraps the azimuth: a frame adds 2 to it when the right
  key is held and takes 2 off when the left key is held, and does nothing else to it.
  Over a run of at most 8388585 frames the azimuth is 45 plus 2 for every frame with
  the right key held minus 2 for every frame with the left key held, a whole number
  below \<open>2 ^ 24\<close> in magnitude; it gets as far as 16777215 and as far as -16777125.
  Nothing is stated about the value after longer runs, where the sum of the program
  rounds.
\<close>

theorem camera_angles:
  "1 \<le> cameraPhi (run_camera ks) \<and> cameraPhi (run_camera ks) \<le> 179
   \<and> cameraPhi (run_camera []) = 45
   \<and> cameraPhi (handle_keys k c) =
       (let phi = (if key_up k then max 1 (cameraPhi c - 2) else cameraPhi c)
        in if key_down k then min 179 (phi + 2) else phi)
   \<and> cameraTheta (handle_keys k c) =
       cameraTheta c + (if key_right k then 2 else 0) - (if key_left k then 2 else 0)
   \<and> (length ks \<le> 8388585 \<longrightarrow>
        cameraTheta (run_camera ks) =
          45 + 2 * real (length (filter key_right ks)) - 2 * real (length (filter key_left ks))
        \<and> (\<exists>m::int. cameraTheta (run_camera ks) = of_int m \<and> \<bar>m\<bar> < 2 ^ 24))
   \<and> cameraTheta (run_camera (replicate 8388585 hold_right)) = 16777215
   \<and> cameraTheta (run_camera (replicate 8388585 hold_left)) = - 16777125"
proof -
  have "cameraPhi (run_camera []) = 45"
    by (simp add: run_camera_def Camera_init_def)
  moreover have "cameraPhi (handle_keys k c) =
       (let phi = (if key_up k then max 1 (cameraPhi c - 2) else cameraPhi c)
        in if key_down k then min 179 (phi + 2) else phi)"
    by (simp add: handle_keys_def Let_def rotationSpeed_def)
  moreover have "cameraTheta (run_camera (replicate 8388585 hold_right)) = 16777215"
    by (simp add: run_camera_theta hold_right_def)
  moreover have "cameraTheta (run_camera (replicate 8388585 hold_left)) = - 16777125"
    by (simp add: run_camera_theta hold_left_def)
  ultimately show ?thesis
    using run_camera_phi [of ks] run_camera_theta [of ks] run_camera_theta_int [of ks]
      handle_keys_theta [of k c]
    by blast
qed

theorem camera_angles_witness:
  "cameraPhi (run_camera (replicate 21 hold_up)) = 3
   \<and> cameraPhi (run_camera (replicate 22 hold_up)) = 1
   \<and> cameraPhi (run_camera (replicate 23 hold_up)) = 1
   \<and> length [hold_right, hold_right, hold_left, hold_right] \<le> 8388585
   \<and> cameraTheta (run_camera [hold_right, hold_right, hold_left, hold_right]) = 49"
proof -
  have "cameraPhi (run_camera (replicate 21 hold_up)) = 3"
    and "cameraPhi (run_camera (replicate 22 hold_up)) = 1"
    and "cameraPhi (run_camera (replicate 23 hold_up)) = 1"
    unfolding run_camera_def
    by (subst foldl_hold_up; simp add: Camera_init_def)+
  moreover have "cameraTheta (run_camera [hold_right, hold_right, hold_left, hold_right]) = 49"
    using camera_angles [of "[hold_right, hold_right, hold_left, hold_right]"]
    by (simp add: hold_right_def hold_left_def)
  ultimately show ?thesis
    by simp
qed

subsection \<open>The degenerate zenith\<close>

text \<open>The values of the conversion at 0 and at 180 degrees.\<close>

lemma floor_log2_eq:
  assumes "2 powr (of_int e) \<le> v" and "v < 2 powr (of_int e + 1)"
  shows "\<lfloor>log 2 v\<rfloor> = e"
proof -
  have "0 < (2 :: real) powr (of_int e)"
    by simp
  with assms(1) have "0 < v"
    by linarith
  then show ?thesis
    using assms by (simp add: floor_log_eq_powr_iff)
qed

lemma radians_factor_value: "radians_factor = 9370165 / 2 ^ 29"
proof -
  have e: "\<lfloor>log 2 \<bar>0.01745329251994329576923690768489 :: real\<bar>\<rfloor> = - 6"
    by (rule floor_log2_eq) (simp_all add: powr_minus)
  show ?thesis
    unfolding radians_factor_def float_round_def Let_def e
    by (simp add: powr_minus round_half_even_def Let_def)
qed

lemma radians_float_0: "radians_float 0 = 0"
  by (simp add: radians_float_def float_round_def)

lemma radians_float_180: "radians_float 180 = 13176795 / 2 ^ 22"
proof -
  have e: "\<lfloor>log 2 \<bar>180 * (9370165 / 2 ^ 29) :: real\<bar>\<rfloor> = 1"
    by (rule floor_log2_eq) simp_all
  show ?thesis
    unfolding radians_float_def radians_factor_value float_round_def Let_def e
    by (simp add: powr_minus round_half_even_def Let_def)
qed

text \<open>
  Eight digits of \<open>pi\<close>, from Machin's formula and the alternating series of the
  arctangent, whose partial sums lie on both sides of the limit in turn.
\<close>

lemma arctan_between:
  fixes x :: real
  assumes "0 < x" and "x \<le> 1"
  shows "arctan x \<in> {(\<Sum>k<2 * n. (- 1) ^ k * (1 / real (k * 2 + 1) * x ^ (k * 2 + 1))) ..
                     (\<Sum>k<2 * n + 1. (- 1) ^ k * (1 / real (k * 2 + 1) * x ^ (k * 2 + 1)))}"
proof -
  have x: "\<bar>x\<bar> \<le> 1"
    using assms by simp
  have first: "0 < 1 / real (0 * 2 + 1) * x ^ (0 * 2 + 1)"
    using assms by simp
  show ?thesis
    using summable_Leibniz(2) [OF zeroseq_arctan_series [OF x] monoseq_arctan_series [OF x]] first
    unfolding arctan_series [OF x] by blast
qed

lemma pi_8_digits: "3.14159265 \<le> pi" "pi \<le> 3.14159266"
proof -
  have m: "pi = 16 * arctan (1 / 5) - 4 * arctan (1 / 239)"
    using machin by simp
  have a3: "arctan (1 / 5) \<in>
      {(\<Sum>k<2 * 3. (- 1) ^ k * (1 / real (k * 2 + 1) * (1 / 5) ^ (k * 2 + 1))) ..
       (\<Sum>k<2 * 3 + 1. (- 1) ^ k * (1 / real (k * 2 + 1) * (1 / 5) ^ (k * 2 + 1)))}"
    by (rule arctan_between) simp_all
  have b1: "arctan (1 / 239) \<in>
      {(\<Sum>k<2 * 1. (- 1) ^ k * (1 / real (k * 2 + 1) * (1 / 239) ^ (k * 2 + 1))) ..
       (\<Sum>k<2 * 1 + 1. (- 1) ^ k * (1 / real (k * 2 + 1) * (1 / 239) ^ (k * 2 + 1)))}"
    by (rule arctan_between) simp_all
  from a3 b1 show "3.14159265 \<le> pi" and "pi \<le> 3.14159266"
    unfolding m by (simp_all add: eval_nat_numeral)
qed

text \<open>
  The binary32 number that the conversion returns for 180 degrees lies just above
  \<open>pi\<close>: its sine and its cosine are negative.
\<close>

lemma sin_float_pi: "sin (13176795 / 2 ^ 22 :: real) < 0"
proof -
  have "pi < 13176795 / 2 ^ 22" and "13176795 / 2 ^ 22 < 2 * pi"
    using pi_8_digits by simp_all
  then show ?thesis
    by (rule sin_lt_zero)
qed

lemma cos_float_pi: "cos (13176795 / 2 ^ 22 :: real) < 0"
proof -
  have "0 < cos (13176795 / 2 ^ 22 - pi)"
    using pi_8_digits by (intro cos_gt_zero_pi) simp_all
  then show ?thesis
    by simp
qed

lemma updatePosition_float_fields:
  "ray_x (updatePosition_float r) =
     currentLength r * sin (radians_float (zenith r)) * cos (radians_float (azimuth r))"
  "ray_y (updatePosition_float r) = currentLength r * cos (radians_float (zenith r))"
  "ray_z (updatePosition_float r) =
     currentLength r * sin (radians_float (zenith r)) * sin (radians_float (azimuth r))"
  by (simp_all add: updatePosition_float_def Let_def)

text \<open>
  C8, as the claim states it, fails at the zenith 180: \<^verbatim>\<open>glm::radians(180.0f)\<close> is the
  binary32 number next to \<open>pi\<close> and not \<open>pi\<close>, its sine is not 0, and for the ray
  pointing down with length 1/2 the recomputed x is negative with the azimuth 0 and
  positive with the azimuth 180: the position is off the vertical axis and depends on
  the azimuth.
\<close>

theorem degenerate_zenith_counterexample:
  "zenith ray_down = 180
   \<and> ray_x (updatePosition_float ray_down) \<noteq> 0
   \<and> ray_x (updatePosition_float (ray_down\<lparr>azimuth := 0\<rparr>))
       \<noteq> ray_x (updatePosition_float (ray_down\<lparr>azimuth := 180\<rparr>))"
proof -
  have x0: "ray_x (updatePosition_float ray_down) = 1 / 2 * sin (13176795 / 2 ^ 22)"
    by (simp add: updatePosition_float_fields ray_down_def radians_float_180 radians_float_0)
  have x180: "ray_x (updatePosition_float (ray_down\<lparr>azimuth := 180\<rparr>))
      = 1 / 2 * (sin (13176795 / 2 ^ 22) * cos (13176795 / 2 ^ 22))"
    by (simp add: updatePosition_float_fields ray_down_def radians_float_180)
  have neg: "ray_x (updatePosition_float ray_down) < 0"
    unfolding x0 using sin_float_pi by simp
  have "0 < sin (13176795 / 2 ^ 22 :: real) * cos (13176795 / 2 ^ 22)"
    using sin_float_pi cos_float_pi by (rule mult_neg_neg)
  then have pos: "0 < ray_x (updatePosition_float (ray_down\<lparr>azimuth := 180\<rparr>))"
    unfolding x180 by simp
  have same: "ray_down\<lparr>azimuth := 0\<rparr> = ray_down"
    by (simp add: ray_down_def)
  have z: "zenith ray_down = 180"
    by (simp add: ray_down_def)
  from neg have a: "ray_x (updatePosition_float ray_down) \<noteq> 0"
    by (rule less_imp_neq)
  from neg pos have b: "ray_x (updatePosition_float ray_down)
      \<noteq> ray_x (updatePosition_float (ray_down\<lparr>azimuth := 180\<rparr>))"
    by linarith
  from z a b show ?thesis
    unfolding same by blast
qed

text \<open>
  C8, amended. For every travelled distance and every pair of azimuth values, the
  position recomputed with a zenith of exactly 0 degrees is the same for both, and it
  lies on the vertical axis: x = 0, z = 0 and y is the travelled distance. (The zenith
  of 180 degrees is left out: there the position need not lie on the axis and can
  depend on the azimuth, as the ray above shows.)
\<close>

theorem degenerate_zenith_float:
  assumes "zenith r = 0"
  shows "ray_x (updatePosition_float (r\<lparr>azimuth := a1\<rparr>)) = 0
       \<and> ray_z (updatePosition_float (r\<lparr>azimuth := a1\<rparr>)) = 0
       \<and> ray_y (updatePosition_float (r\<lparr>azimuth := a1\<rparr>)) = currentLength r
       \<and> ray_x (updatePosition_float (r\<lparr>azimuth := a1\<rparr>)) = ray_x (updatePosition_float (r\<lparr>azimuth := a2\<rparr>))
       \<and> ray_y (updatePosition_float (r\<lparr>azimuth := a1\<rparr>)) = ray_y (updatePosition_float (r\<lparr>azimuth := a2\<rparr>))
       \<and> ray_z (updatePosition_float (r\<lparr>azimuth := a1\<rparr>)) = ray_z (updatePosition_float (r\<lparr>azimuth := a2\<rparr>))"
  using assms by (simp add: updatePosition_float_fields radians_float_0)

theorem degenerate_zenith_float_witness:
  "zenith ray_mid = 0
   \<and> ray_x (updatePosition_float (ray_mid\<lparr>azimuth := 90\<rparr>)) = 0
   \<and> ray_y (updatePosition_float (ray_mid\<lparr>azimuth := 90\<rparr>)) = 0.1
   \<and> ray_z (updatePosition_float (ray_mid\<lparr>azimuth := 90\<rparr>)) = 0
   \<and> ray_x (updatePosition_float (ray_mid\<lparr>azimuth := 90\<rparr>))
       = ray_x (updatePosition_float (ray_mid\<lparr>azimuth := 270\<rparr>))"
proof -
  have z: "zenith ray_mid = 0"
    by (simp add: ray_mid_def)
  from degenerate_zenith_float [OF z, of 90 270] z show ?thesis
    by (simp add: ray_mid_def)
qed

end
